theory Spec2Isabelle
  imports Main
begin

section \<open>Playback orchestration of Clementine (src/core/player.cpp)\<close>

text \<open>
  The theory embeds the member functions of \<^verbatim>\<open>Player\<close> that the specification talks
  about.  \<^verbatim>\<open>Player\<close> drives three collaborators whose implementation is not part of
  the sources at hand (the audio engine, the active playlist and the playlist items), so
  their observable state is kept in records and every call made on them is written to a
  log.  Member names lose their trailing underscore (\<^verbatim>\<open>loading_async_\<close> is
  \<open>loading_async\<close>), because an Isabelle name cannot end in one.
\<close>

subsection \<open>Qt values\<close>

text \<open>
  \<^verbatim>\<open>QString\<close> is a \<open>string\<close>.  The functions below are the ones
  \<^verbatim>\<open>EngineMetadataReceived\<close> calls, with the behaviour the Qt documentation gives them:
  \<^verbatim>\<open>indexOf\<close> is the first position of a character or -1, \<^verbatim>\<open>mid(pos)\<close> is the rest
  of the string from \<open>pos\<close>, \<^verbatim>\<open>left(n)\<close> the first \<open>n\<close> characters (the whole string
  when \<open>n\<close> is negative or not smaller than the size), \<^verbatim>\<open>trimmed\<close> removes white space
  at both ends, \<^verbatim>\<open>contains\<close> is the substring test.

  A \<open>char\<close> stands for a \<^verbatim>\<open>QChar\<close> up to U+00FF.  \<^verbatim>\<open>QChar::isSpace\<close> holds for the
  characters from tab to carriage return (U+0009 to U+000D) and for the characters of the
  Unicode separator categories; up to U+00FF these are the space (U+0020) and the
  no-break space (U+00A0).  The source is written against Qt 4 (it tests
  \<^verbatim>\<open>Q_WS_X11\<close>), where this is all of \<^verbatim>\<open>isSpace\<close>; Qt 5 adds the control
  character U+0085.  The separators beyond U+00FF are not characters of the model.
\<close>

fun indexOf :: "string \<Rightarrow> char \<Rightarrow> int" where
  "indexOf [] c = -1"
| "indexOf (x # xs) c =
     (if x = c then 0
      else (let r = indexOf xs c in if r = -1 then -1 else r + 1))"

definition mid :: "string \<Rightarrow> int \<Rightarrow> string" where
  "mid s pos = (if pos < 0 then s else drop (nat pos) s)"

definition left :: "string \<Rightarrow> int \<Rightarrow> string" where
  "left s n = (if n < 0 \<or> int (length s) \<le> n then s else take (nat n) s)"

definition isSpace :: "char \<Rightarrow> bool" where
  "isSpace c =
     (c \<in> set [CHR 0x09, CHR 0x0A, CHR 0x0B, CHR 0x0C, CHR 0x0D, CHR 0x20, CHR 0xA0])"

definition trimmed :: "string \<Rightarrow> string" where
  "trimmed s = rev (dropWhile isSpace (rev (dropWhile isSpace s)))"

fun contains :: "string \<Rightarrow> string \<Rightarrow> bool" where
  "contains [] needle = (needle = [])"
| "contains (c # cs) needle =
     (take (length needle) (c # cs) = needle \<or> contains cs needle)"

text \<open>
  \<^verbatim>\<open>qBound(min, val, max)\<close> is \<^verbatim>\<open>qMax(min, qMin(max, val))\<close>.
\<close>

definition qBound :: "int \<Rightarrow> int \<Rightarrow> int \<Rightarrow> int" where
  "qBound lo val hi = max lo (min hi val)"

text \<open>
  A C++ \<^verbatim>\<open>int\<close> has 32 bits.  \<open>to_int\<close> reads a mathematical integer as the
  \<^verbatim>\<open>int\<close> with the same low 32 bits: it is what an \<^verbatim>\<open>int\<close> multiplication that
  overflows leaves on two's complement hardware, and what the cast \<^verbatim>\<open>int(...)\<close> of a wider
  value does.
\<close>

definition to_int :: "int \<Rightarrow> int" where
  "to_int x = (x + 2 ^ 31) mod 2 ^ 32 - 2 ^ 31"

text \<open>
  A \<^verbatim>\<open>QUrl\<close> is kept as its components; \<^verbatim>\<open>QUrl()\<close> is the empty locator.
\<close>

record QUrl =
  url_scheme :: string
  url_host :: string
  url_path :: string
  url_fragment :: string

definition QUrl_empty :: QUrl where
  "QUrl_empty = \<lparr>url_scheme = [], url_host = [], url_path = [], url_fragment = []\<rparr>"

subsection \<open>Songs and metadata bundles\<close>

record Song =
  song_title :: string
  song_artist :: string
  song_album :: string

record SimpleMetaBundle =
  title :: string
  artist :: string
  album :: string

text \<open>
  Modelled from the spec: \<^verbatim>\<open>Song::MergeFromSimpleMetaBundle\<close> (core/song.cpp) is not
  part of the sources.  The specification describes it as a non-destructive merge that
  only overwrites the fields present in the bundle; a field is present when it is not
  empty.
\<close>

definition MergeFromSimpleMetaBundle :: "Song \<Rightarrow> SimpleMetaBundle \<Rightarrow> Song" where
  "MergeFromSimpleMetaBundle song bundle =
     song\<lparr>song_title := (if title bundle = [] then song_title song else title bundle),
          song_artist := (if artist bundle = [] then song_artist song else artist bundle),
          song_album := (if album bundle = [] then song_album song else album bundle)\<rparr>"

subsection \<open>Playlist items\<close>

text \<open>
  Modelled from the spec: \<^verbatim>\<open>PlaylistItem\<close> (playlist/playlistitem.h) is not part of the
  sources.  An item has a locator, a capability bitmask over the three flags below and
  metadata.  The values of the bits are not known here, so the bitmask is the set of
  flags that are on, and the test \<^verbatim>\<open>options() & Flag\<close> is membership.  A
  \<^verbatim>\<open>shared_ptr<PlaylistItem>\<close> is a \<open>PlaylistItem option\<close>, \<open>None\<close> being the null
  handle.
\<close>

datatype Option_flag = SpecialPlayBehaviour | ContainsMultipleTracks | PauseDisabled

record PlaylistItem =
  Url :: QUrl
  options :: "Option_flag set"
  Metadata :: Song

type_synonym PlaylistItemPtr = "PlaylistItem option"

text \<open>
  Modelled from the spec: \<^verbatim>\<open>PlaylistItem::SpecialLoadResult\<close> is the tagged union of the
  specification's data model; \<open>TrackAvailable original media\<close> carries
  \<^verbatim>\<open>original_url_\<close> and \<^verbatim>\<open>media_url_\<close>, \<open>WillLoadAsynchronously original\<close> carries
  \<^verbatim>\<open>original_url_\<close>.
\<close>

datatype SpecialLoadResult =
    NoMoreTracks
  | TrackAvailable QUrl QUrl
  | WillLoadAsynchronously QUrl

subsection \<open>The engine\<close>

text \<open>
  Modelled from the spec: \<^verbatim>\<open>Engine::TrackChangeType\<close> (engines/engine_fwd.h) is not part
  of the sources; the specification's data model gives its three values.
\<close>

datatype TrackChangeType = First | Auto | Manual

text \<open>The calls the player makes on the engine, as they are logged.\<close>

datatype engine_call =
    EnginePlay QUrl TrackChangeType
  | EngineStop
  | EngineSeek int
  | EngineSetVolume int

text \<open>
  Modelled from the spec: the engine (engines/enginebase.h) is not part of the sources.
  Of the engine contract the functions embedded here use \<^verbatim>\<open>volume()\<close>,
  \<^verbatim>\<open>SetVolume\<close>, \<^verbatim>\<open>length()\<close>, \<^verbatim>\<open>Play\<close>, \<^verbatim>\<open>Stop\<close> and \<^verbatim>\<open>Seek\<close>.  The engine
  remembers the volume it was given; every call is appended to \<open>engine_calls\<close>.  What
  the audio backend does with a call is outside the model.
\<close>

record EngineBase =
  volume :: int
  length_ms :: int
  engine_calls :: "engine_call list"

text \<open>
  Modelled from the spec: \<^verbatim>\<open>EngineBase::SetVolume\<close> stores the volume, which
  \<^verbatim>\<open>volume()\<close> returns afterwards.
\<close>

definition Engine_SetVolume :: "int \<Rightarrow> EngineBase \<Rightarrow> EngineBase" where
  "Engine_SetVolume v e = e\<lparr>volume := v, engine_calls := engine_calls e @ [EngineSetVolume v]\<rparr>"

text \<open>
  Modelled from the spec: \<^verbatim>\<open>Play\<close>, \<^verbatim>\<open>Stop\<close> and \<^verbatim>\<open>Seek\<close> of the engine are
  calls whose effect on the engine is not observed by the functions embedded here; they
  are logged.
\<close>

definition Engine_Play :: "QUrl \<Rightarrow> TrackChangeType \<Rightarrow> EngineBase \<Rightarrow> EngineBase" where
  "Engine_Play u change e = e\<lparr>engine_calls := engine_calls e @ [EnginePlay u change]\<rparr>"

definition Engine_Stop :: "EngineBase \<Rightarrow> EngineBase" where
  "Engine_Stop e = e\<lparr>engine_calls := engine_calls e @ [EngineStop]\<rparr>"

definition Engine_Seek :: "int \<Rightarrow> EngineBase \<Rightarrow> EngineBase" where
  "Engine_Seek msec e = e\<lparr>engine_calls := engine_calls e @ [EngineSeek msec]\<rparr>"

subsection \<open>The active playlist\<close>

text \<open>
  Modelled from the spec: \<^verbatim>\<open>Playlist\<close> (playlist/playlist.cpp) is not part of the
  sources.  The record holds what the cursor contract exposes: the rows, the current
  index (-1 for none), the row of the stop-after marker (-1 for none), the scrobbled flag
  and the stream metadata store, keyed by locator.  \<^verbatim>\<open>item_at\<close> indexes the rows and is
  an error outside of them; \<^verbatim>\<open>current_item()\<close> is the null handle when the current index
  is not a row.
\<close>

record Playlist =
  rows :: "PlaylistItemPtr list"
  current_index :: int
  stop_after :: int
  scrobbled :: bool
  stream_metadata :: "QUrl \<rightharpoonup> Song"

text \<open>
  What a call can end in: it returns a value, it faults (a null handle is dereferenced,
  a list is indexed out of range), or its chain of calls is cut for lack of fuel (see
  \<^verbatim>\<open>PlayAt\<close> below).
\<close>

datatype fault = NullPointer | IndexOutOfRange

datatype 'a outcome = Returns 'a | Faults fault | OutOfFuel

text \<open>Modelled from the spec: \<^verbatim>\<open>rowCount()\<close> is the number of rows.\<close>

definition rowCount :: "Playlist \<Rightarrow> int" where
  "rowCount pl = int (length (rows pl))"

text \<open>
  Modelled from the spec: \<^verbatim>\<open>item_at(i)\<close> is the handle stored in row \<open>i\<close>; indexing
  outside the rows is a fault.
\<close>

definition item_at :: "Playlist \<Rightarrow> int \<Rightarrow> PlaylistItemPtr outcome" where
  "item_at pl i =
     (if 0 \<le> i \<and> i < rowCount pl then Returns (rows pl ! nat i) else Faults IndexOutOfRange)"

text \<open>
  Modelled from the spec: \<^verbatim>\<open>current_item()\<close> is the handle stored in the current row,
  and the null handle when the current index is -1 or not a row.
\<close>

definition current_item :: "Playlist \<Rightarrow> PlaylistItemPtr" where
  "current_item pl =
     (if 0 \<le> current_index pl \<and> current_index pl < rowCount pl
      then rows pl ! nat (current_index pl) else None)"

text \<open>Modelled from the spec: \<^verbatim>\<open>set_current_index(i)\<close> moves the cursor.\<close>

definition set_current_index :: "int \<Rightarrow> Playlist \<Rightarrow> Playlist" where
  "set_current_index i pl = pl\<lparr>current_index := i\<rparr>"

text \<open>
  Modelled from the spec: \<^verbatim>\<open>stop_after_current()\<close> holds when the stop-after marker is
  on the current row, and \<^verbatim>\<open>StopAfter(row)\<close> moves the marker.
\<close>

definition stop_after_current :: "Playlist \<Rightarrow> bool" where
  "stop_after_current pl =
     (stop_after pl \<noteq> -1 \<and> current_index pl \<noteq> -1 \<and> stop_after pl = current_index pl)"

definition StopAfter :: "int \<Rightarrow> Playlist \<Rightarrow> Playlist" where
  "StopAfter row pl = pl\<lparr>stop_after := row\<rparr>"

text \<open>Modelled from the spec: \<^verbatim>\<open>set_scrobbled(b)\<close> sets the scrobbled flag.\<close>

definition set_scrobbled :: "bool \<Rightarrow> Playlist \<Rightarrow> Playlist" where
  "set_scrobbled b pl = pl\<lparr>scrobbled := b\<rparr>"

text \<open>
  Modelled from the spec: \<^verbatim>\<open>SetStreamMetadata(url, song)\<close> publishes the metadata in
  the store of the playlist, under the locator.
\<close>

definition SetStreamMetadata :: "QUrl \<Rightarrow> Song \<Rightarrow> Playlist \<Rightarrow> Playlist" where
  "SetStreamMetadata u song pl = pl\<lparr>stream_metadata := (stream_metadata pl)(u \<mapsto> song)\<rparr>"

subsection \<open>The player\<close>

datatype signal =
    TrackSkipped PlaylistItemPtr
  | PlaylistFinished
  | VolumeChanged int

datatype load_call = StartLoading_call QUrl | LoadNext_call QUrl

text \<open>
  The state of a \<^verbatim>\<open>Player\<close>: its members, the engine it owns, the active playlist
  (\<^verbatim>\<open>playlists_->active()\<close>), the \<^verbatim>\<open>"volume"\<close> key of \<^verbatim>\<open>settings_\<close>, and three logs:
  the signals emitted, the songs announced to \<^verbatim>\<open>lastfm_->NowPlaying\<close>, and the load
  operations started on items.
\<close>

record Player =
  engine :: EngineBase
  active :: Playlist
  settings_volume :: int
  current_item_ref :: PlaylistItemPtr
  loading_async :: QUrl
  stream_change_type :: TrackChangeType
  volume_before_mute :: int
  emitted :: "signal list"
  now_playing :: "Song list"
  load_calls :: "load_call list"

definition emit :: "signal \<Rightarrow> Player \<Rightarrow> Player" where
  "emit sig s = s\<lparr>emitted := emitted s @ [sig]\<rparr>"

subsection \<open>Volume\<close>

definition SetVolume :: "int \<Rightarrow> Player \<Rightarrow> Player" where
  "SetVolume val s =
     (let old_volume = volume (engine s);
          vol = qBound 0 val 100;
          s1 = s\<lparr>settings_volume := vol\<rparr>;
          s2 = s1\<lparr>engine := Engine_SetVolume vol (engine s1)\<rparr>
      in if vol \<noteq> old_volume then emit (VolumeChanged vol) s2 else s2)"

definition GetVolume :: "Player \<Rightarrow> int" where
  "GetVolume s = volume (engine s)"

definition Mute :: "Player \<Rightarrow> Player" where
  "Mute s =
     (let current_volume = volume (engine s)
      in if current_volume = 0 then SetVolume (volume_before_mute s) s
         else SetVolume 0 (s\<lparr>volume_before_mute := current_volume\<rparr>))"

subsection \<open>What the player asks of its collaborators\<close>

text \<open>
  Modelled from the spec: the answers of the collaborators are code that is not part of
  the sources, so they are parameters of the player's functions.  \<open>next_index\<close> and
  \<open>previous_index\<close> are the cursor's navigation (shuffle and repeat policy), read off the
  playlist; \<open>StartLoading\<close> and \<open>LoadNext\<close> are the two load operations of an item, whose
  answer may depend on the loads started so far; \<open>IsScrobblingEnabled\<close> is the answer of
  \<^verbatim>\<open>lastfm_\<close>.
\<close>

record Collaborators =
  next_index :: "Playlist \<Rightarrow> int"
  previous_index :: "Playlist \<Rightarrow> int"
  StartLoading :: "load_call list \<Rightarrow> PlaylistItem \<Rightarrow> SpecialLoadResult"
  LoadNext :: "load_call list \<Rightarrow> PlaylistItem \<Rightarrow> SpecialLoadResult"
  IsScrobblingEnabled :: bool

subsection \<open>Navigation\<close>

definition Stop :: "Player \<Rightarrow> Player" where
  "Stop s =
     (let s1 = s\<lparr>engine := Engine_Stop (engine s)\<rparr>;
          s2 = s1\<lparr>active := set_current_index (-1) (active s1)\<rparr>
      in s2\<lparr>current_item_ref := None\<rparr>)"

text \<open>
  \<^verbatim>\<open>PlayAt\<close>, \<^verbatim>\<open>HandleSpecialLoad\<close> and \<^verbatim>\<open>NextItem\<close> call each other: an item that
  answers \<open>NoMoreTracks\<close> sends the player to the next item, which may answer the same.
  With a playlist that repeats, nothing bounds the chain, so the three functions take
  fuel, spent by each \<open>NoMoreTracks\<close>, and \<open>OutOfFuel\<close> stands for a chain that was cut.
  Dereferencing a null handle is \<open>Faults NullPointer\<close>.
\<close>

function (sequential) PlayAt :: "nat \<Rightarrow> Collaborators \<Rightarrow> int \<Rightarrow> TrackChangeType \<Rightarrow> bool \<Rightarrow> Player \<Rightarrow> Player outcome"
  and HandleSpecialLoad :: "nat \<Rightarrow> Collaborators \<Rightarrow> SpecialLoadResult \<Rightarrow> Player \<Rightarrow> Player outcome"
  and NextItem :: "nat \<Rightarrow> Collaborators \<Rightarrow> TrackChangeType \<Rightarrow> Player \<Rightarrow> Player outcome"
where
  "PlayAt fuel env index change reshuffle s =
     (let s1 = (if reshuffle then s\<lparr>active := set_current_index (-1) (active s)\<rparr> else s);
          s2 = s1\<lparr>active := set_current_index index (active s1)\<rparr>;
          s3 = s2\<lparr>current_item_ref := current_item (active s2)\<rparr>
      in case current_item_ref s3 of
           None \<Rightarrow> Faults NullPointer
         | Some item \<Rightarrow>
             if SpecialPlayBehaviour \<in> options item then
               (if Url item = loading_async s3 then Returns s3
                else
                  (let s4 = s3\<lparr>stream_change_type := change\<rparr>;
                       result = StartLoading env (load_calls s4) item;
                       s5 = s4\<lparr>load_calls := load_calls s4 @ [StartLoading_call (Url item)]\<rparr>
                   in HandleSpecialLoad fuel env result s5))
             else
               (let s4 = s3\<lparr>loading_async := QUrl_empty\<rparr>;
                    s5 = s4\<lparr>engine := Engine_Play (Url item) change (engine s4)\<rparr>
                in if IsScrobblingEnabled env
                   then Returns (s5\<lparr>now_playing := now_playing s5 @ [Metadata item]\<rparr>)
                   else Returns s5))"
| "HandleSpecialLoad fuel env NoMoreTracks s =
     (case fuel of
        0 \<Rightarrow> OutOfFuel
      | Suc n \<Rightarrow> NextItem n env Auto (s\<lparr>loading_async := QUrl_empty\<rparr>))"
| "HandleSpecialLoad fuel env (TrackAvailable original_url media_url) s =
     (let index = current_index (active s)
      in if index = -1 then Returns s
         else
           (case item_at (active s) index of
              Faults f \<Rightarrow> Faults f
            | OutOfFuel \<Rightarrow> OutOfFuel
            | Returns None \<Rightarrow> Returns s
            | Returns (Some item) \<Rightarrow>
                if Url item \<noteq> original_url then Returns s
                else
                  (let s1 = s\<lparr>engine := Engine_Play media_url (stream_change_type s) (engine s)\<rparr>;
                       s2 = s1\<lparr>current_item_ref := Some item\<rparr>
                   in Returns (s2\<lparr>loading_async := QUrl_empty\<rparr>))))"
| "HandleSpecialLoad fuel env (WillLoadAsynchronously original_url) s =
     Returns (s\<lparr>loading_async := original_url\<rparr>)"
| "NextItem fuel env change s =
     (let i = next_index env (active s)
      in if i = -1 then
           (let s1 = s\<lparr>active := set_current_index i (active s)\<rparr>;
                s2 = emit PlaylistFinished s1
            in Returns (Stop s2))
         else PlayAt fuel env i change False s)"
  by pat_completeness auto
termination
  by (relation "measure (\<lambda>x. case x of
         Inl (fuel, _) \<Rightarrow> 3 * fuel + 1
       | Inr (Inl (fuel, _)) \<Rightarrow> 3 * fuel
       | Inr (Inr (fuel, _)) \<Rightarrow> 3 * fuel + 2)") auto

text \<open>
  Every chain of calls ends: \<^verbatim>\<open>NextItem\<close> calls \<^verbatim>\<open>PlayAt\<close>, which calls
  \<^verbatim>\<open>HandleSpecialLoad\<close>, which calls \<^verbatim>\<open>NextItem\<close> with less fuel.
\<close>

definition NextInternal :: "nat \<Rightarrow> Collaborators \<Rightarrow> TrackChangeType \<Rightarrow> Player \<Rightarrow> Player outcome" where
  "NextInternal fuel env change s =
     (let s1 = (if change = Manual then emit (TrackSkipped (current_item_ref s)) s else s)
      in if stop_after_current (active s1) then
           Returns (Stop (s1\<lparr>active := StopAfter (-1) (active s1)\<rparr>))
         else
           (case current_item (active s1) of
              None \<Rightarrow> NextItem fuel env change s1
            | Some item \<Rightarrow>
                if ContainsMultipleTracks \<in> options item then
                  (if Url item = loading_async s1 then Returns s1
                   else
                     (let s2 = s1\<lparr>stream_change_type := change\<rparr>;
                          result = LoadNext env (load_calls s2) item;
                          s3 = s2\<lparr>load_calls := load_calls s2 @ [LoadNext_call (Url item)]\<rparr>
                      in HandleSpecialLoad fuel env result s3))
                else NextItem fuel env change s1))"

definition Next :: "nat \<Rightarrow> Collaborators \<Rightarrow> Player \<Rightarrow> Player outcome" where
  "Next fuel env s = NextInternal fuel env Manual s"

definition Previous :: "nat \<Rightarrow> Collaborators \<Rightarrow> Player \<Rightarrow> Player outcome" where
  "Previous fuel env s =
     (let i = previous_index env (active s);
          s1 = s\<lparr>active := set_current_index i (active s)\<rparr>
      in if i = -1 then Returns (Stop s1) else PlayAt fuel env i Manual False s1)"

subsection \<open>Seeking, metadata, item lookup\<close>

definition Seek :: "int \<Rightarrow> Player \<Rightarrow> Player" where
  "Seek seconds s =
     (let msec = qBound 0 (to_int (seconds * 1000)) (to_int (length_ms (engine s)));
          s1 = s\<lparr>engine := Engine_Seek msec (engine s)\<rparr>
      in s1\<lparr>active := set_scrobbled True (active s1)\<rparr>)"

definition EngineMetadataReceived :: "SimpleMetaBundle \<Rightarrow> Player \<Rightarrow> Player" where
  "EngineMetadataReceived bundle s =
     (case current_item (active s) of
        None \<Rightarrow> s
      | Some item \<Rightarrow>
          (let dash_pos = indexOf (title bundle) CHR ''-'';
               bundle_copy1 =
                 (if dash_pos \<noteq> -1 \<and> artist bundle = []
                  then bundle\<lparr>artist := trimmed (mid (title bundle) (dash_pos + 1)),
                              title := trimmed (left (title bundle) dash_pos)\<rparr>
                  else bundle);
               bundle_copy2 =
                 (if contains (url_host (Url item)) ''somafm.com'' \<or>
                     url_fragment (Url item) = ''icecast''
                  then bundle_copy1\<lparr>artist := title bundle_copy1, title := artist bundle_copy1\<rparr>
                  else bundle_copy1);
               song = MergeFromSimpleMetaBundle (Metadata item) bundle_copy2
           in if song_title song = [] \<and> song_artist song = [] then s
              else s\<lparr>active := SetStreamMetadata (Url item) song (active s)\<rparr>))"

definition GetItemAt :: "Player \<Rightarrow> int \<Rightarrow> PlaylistItemPtr outcome" where
  "GetItemAt s pos =
     (if pos < 0 \<or> pos \<ge> rowCount (active s) then Returns None
      else item_at (active s) pos)"

subsection \<open>A small playlist to run the functions on\<close>

text \<open>
  Four items: a radio item that needs special loading and holds several tracks, a local
  file, a plain network stream and a SomaFM stream.  The cursor of \<open>demo_env\<close> walks
  the rows in order, and its items answer every load with \<open>WillLoadAsynchronously\<close>.
\<close>

definition demo_song :: Song where
  "demo_song = \<lparr>song_title = ''Untitled'', song_artist = [], song_album = []\<rparr>"

definition url_radio :: QUrl where
  "url_radio = \<lparr>url_scheme = ''lastfm'', url_host = ''artist'', url_path = ''/radio'',
                 url_fragment = []\<rparr>"

definition url_file :: QUrl where
  "url_file = \<lparr>url_scheme = ''file'', url_host = [], url_path = ''/music/a.mp3'',
                url_fragment = []\<rparr>"

definition url_stream :: QUrl where
  "url_stream = \<lparr>url_scheme = ''http'', url_host = ''example.com'', url_path = ''/live'',
                  url_fragment = []\<rparr>"

definition url_soma :: QUrl where
  "url_soma = \<lparr>url_scheme = ''http'', url_host = ''ice.somafm.com'', url_path = ''/groove'',
                url_fragment = []\<rparr>"

definition url_media :: QUrl where
  "url_media = \<lparr>url_scheme = ''http'', url_host = ''cdn.example.com'', url_path = ''/t1.mp3'',
                 url_fragment = []\<rparr>"

definition item_radio :: PlaylistItem where
  "item_radio = \<lparr>Url = url_radio, options = {SpecialPlayBehaviour, ContainsMultipleTracks},
                  Metadata = demo_song\<rparr>"

definition item_file :: PlaylistItem where
  "item_file = \<lparr>Url = url_file, options = {}, Metadata = demo_song\<rparr>"

definition item_stream :: PlaylistItem where
  "item_stream = \<lparr>Url = url_stream, options = {}, Metadata = demo_song\<rparr>"

definition item_soma :: PlaylistItem where
  "item_soma = \<lparr>Url = url_soma, options = {}, Metadata = demo_song\<rparr>"

definition demo_engine :: EngineBase where
  "demo_engine = \<lparr>volume = 50, length_ms = 240000, engine_calls = []\<rparr>"

definition demo_playlist :: Playlist where
  "demo_playlist =
     \<lparr>rows = [Some item_radio, Some item_file, Some item_stream, Some item_soma],
      current_index = -1, stop_after = -1, scrobbled = False, stream_metadata = Map.empty\<rparr>"

definition demo_player :: Player where
  "demo_player =
     \<lparr>engine = demo_engine, active = demo_playlist, settings_volume = 50,
      current_item_ref = None, loading_async = QUrl_empty, stream_change_type = First,
      volume_before_mute = 50, emitted = [], now_playing = [], load_calls = []\<rparr>"

definition demo_env :: Collaborators where
  "demo_env =
     \<lparr>next_index = (\<lambda>pl. if current_index pl + 1 < rowCount pl then current_index pl + 1 else -1),
      previous_index = (\<lambda>pl. if current_index pl \<le> 0 then -1 else current_index pl - 1),
      StartLoading = (\<lambda>log item. WillLoadAsynchronously (Url item)),
      LoadNext = (\<lambda>log item. WillLoadAsynchronously (Url item)),
      IsScrobblingEnabled = True\<rparr>"

text \<open>
  \<open>demo_loading\<close> is the player after \<^verbatim>\<open>PlayAt(0, Manual, false)\<close>: the radio item is
  current and its load is in flight.  \<open>demo_moved\<close> is the same player with the cursor
  on the local file.
\<close>

definition demo_loading :: Player where
  "demo_loading =
     demo_player\<lparr>active := demo_playlist\<lparr>current_index := 0\<rparr>,
                 current_item_ref := Some item_radio, loading_async := url_radio,
                 stream_change_type := Manual, load_calls := [StartLoading_call url_radio]\<rparr>"

definition demo_moved :: Player where
  "demo_moved = demo_loading\<lparr>active := demo_playlist\<lparr>current_index := 1\<rparr>\<rparr>"

text \<open>
  \<open>demo_stopped\<close> is \<open>demo_loading\<close> after \<^verbatim>\<open>Previous()\<close>: there is no row before the
  radio item, so the player has stopped.  \<open>demo_last\<close> has the cursor on the last row,
  \<open>demo_on_stream\<close> and \<open>demo_on_soma\<close> on the two network streams.
\<close>

definition demo_stopped :: Player where
  "demo_stopped =
     demo_loading\<lparr>engine := demo_engine\<lparr>engine_calls := [EngineStop]\<rparr>,
                  active := demo_playlist, current_item_ref := None\<rparr>"

text \<open>
  \<open>demo_stuck\<close> is \<open>demo_stopped\<close> with the cursor and the current-item reference back
  on the radio item, and nothing else changed.
\<close>

definition demo_stuck :: Player where
  "demo_stuck =
     demo_stopped\<lparr>active := demo_playlist\<lparr>current_index := 0\<rparr>,
                  current_item_ref := Some item_radio\<rparr>"

definition demo_last :: Player where
  "demo_last = demo_player\<lparr>active := demo_playlist\<lparr>current_index := 3\<rparr>,
                 current_item_ref := Some item_soma\<rparr>"

definition demo_on_stream :: Player where
  "demo_on_stream = demo_player\<lparr>active := demo_playlist\<lparr>current_index := 2\<rparr>,
                      current_item_ref := Some item_stream\<rparr>"

definition demo_on_soma :: Player where
  "demo_on_soma = demo_player\<lparr>active := demo_playlist\<lparr>current_index := 3\<rparr>,
                    current_item_ref := Some item_soma\<rparr>"

definition icy_bundle :: SimpleMetaBundle where
  "icy_bundle = \<lparr>title = ''Artist Name - Track Title'', artist = [], album = []\<rparr>"

text \<open>
  An item that holds several tracks and has no special play behaviour, alone in a
  playlist: \<open>demo_multi_start\<close> has it current, \<open>demo_multi_loading\<close> is the player after
  \<^verbatim>\<open>NextInternal(Auto)\<close>, when \<^verbatim>\<open>LoadNext\<close> has answered \<open>WillLoadAsynchronously\<close>,
  and \<open>demo_multi_played\<close> and \<open>demo_multi_played_twice\<close> are the players after one and
  two calls of \<^verbatim>\<open>PlayAt(0, Manual, false)\<close> from there.
\<close>

definition url_multi :: QUrl where
  "url_multi = \<lparr>url_scheme = ''cdda'', url_host = [], url_path = ''/disc'', url_fragment = []\<rparr>"

definition item_multi :: PlaylistItem where
  "item_multi = \<lparr>Url = url_multi, options = {ContainsMultipleTracks}, Metadata = demo_song\<rparr>"

definition demo_multi_start :: Player where
  "demo_multi_start =
     demo_player\<lparr>active := demo_playlist\<lparr>rows := [Some item_multi], current_index := 0\<rparr>,
                 current_item_ref := Some item_multi\<rparr>"

definition demo_multi_loading :: Player where
  "demo_multi_loading =
     demo_multi_start\<lparr>loading_async := url_multi, stream_change_type := Auto,
                       load_calls := [LoadNext_call url_multi]\<rparr>"

definition demo_multi_played :: Player where
  "demo_multi_played =
     demo_multi_loading\<lparr>loading_async := QUrl_empty,
                         engine := demo_engine\<lparr>engine_calls := [EnginePlay url_multi Manual]\<rparr>,
                         now_playing := [demo_song]\<rparr>"

definition demo_multi_played_twice :: Player where
  "demo_multi_played_twice =
     demo_multi_played\<lparr>engine := demo_engine\<lparr>engine_calls :=
                            [EnginePlay url_multi Manual, EnginePlay url_multi Manual]\<rparr>,
                        now_playing := [demo_song, demo_song]\<rparr>"

lemmas op_defs =
  Let_def current_item_def rowCount_def set_current_index_def Engine_Play_def Engine_Stop_def
  Next_def Previous_def NextInternal_def emit_def stop_after_current_def
  item_at_def QUrl_empty_def Stop_def StopAfter_def

lemmas demo_defs =
  demo_song_def url_radio_def url_file_def url_stream_def url_soma_def url_media_def
  item_radio_def item_file_def item_stream_def item_soma_def demo_engine_def
  demo_playlist_def demo_player_def demo_env_def demo_loading_def demo_moved_def
  demo_stopped_def demo_stuck_def demo_last_def demo_on_stream_def demo_on_soma_def
  icy_bundle_def url_multi_def item_multi_def demo_multi_start_def demo_multi_loading_def
  demo_multi_played_def demo_multi_played_twice_def

section \<open>Properties\<close>

subsection \<open>Helper facts\<close>

lemma SetVolume_volume: "volume (engine (SetVolume v s)) = qBound 0 v 100"
  by (simp add: SetVolume_def Engine_SetVolume_def emit_def Let_def)

lemma SetVolume_before_mute: "volume_before_mute (SetVolume v s) = volume_before_mute s"
  by (simp add: SetVolume_def Engine_SetVolume_def emit_def Let_def)

lemma Mute_from_nonzero:
  "volume (engine t) \<noteq> 0 \<Longrightarrow>
   volume (engine (Mute t)) = 0 \<and> volume_before_mute (Mute t) = volume (engine t)"
  by (simp add: Mute_def Let_def SetVolume_volume SetVolume_before_mute qBound_def)

lemma Mute_from_zero:
  "volume (engine t) = 0 \<Longrightarrow>
   volume (engine (Mute t)) = qBound 0 (volume_before_mute t) 100"
  by (simp add: Mute_def Let_def SetVolume_volume)

lemma Mute_twice:
  assumes "0 < volume (engine t)" and "volume (engine t) \<le> 100"
  shows "volume (engine (Mute t)) = 0 \<and> volume (engine (Mute (Mute t))) = volume (engine t)"
  using assms Mute_from_nonzero [of t] Mute_from_zero [of "Mute t"]
  by (simp add: qBound_def)

lemma to_int_id: "- (2 ^ 31) \<le> x \<Longrightarrow> x < 2 ^ 31 \<Longrightarrow> to_int x = x"
  by (simp add: to_int_def)

lemma current_item_SomeD:
  "current_item pl = Some item \<Longrightarrow>
   current_index pl \<noteq> -1 \<and> item_at pl (current_index pl) = Returns (Some item)"
  by (auto simp: current_item_def item_at_def split: if_splits)

lemma current_item_at_index:
  "0 \<le> index \<Longrightarrow> index < rowCount pl \<Longrightarrow> rows pl ! nat index = it \<Longrightarrow>
   current_item (pl\<lparr>current_index := index\<rparr>) = it"
  by (simp add: current_item_def rowCount_def)

text \<open>What \<^verbatim>\<open>HandleSpecialLoad\<close> does with a \<open>TrackAvailable\<close> result.\<close>

lemma TrackAvailable_no_index:
  "current_index (active s) = -1 \<Longrightarrow>
   HandleSpecialLoad fuel env (TrackAvailable original media) s = Returns s"
  by simp

lemma TrackAvailable_other_locator:
  "item_at (active s) (current_index (active s)) = Returns (Some item) \<Longrightarrow>
   Url item \<noteq> original \<Longrightarrow>
   HandleSpecialLoad fuel env (TrackAvailable original media) s = Returns s"
  by (simp add: Let_def)

lemma TrackAvailable_valid:
  "current_index (active s) \<noteq> -1 \<Longrightarrow>
   item_at (active s) (current_index (active s)) = Returns (Some item) \<Longrightarrow>
   Url item = original \<Longrightarrow>
   HandleSpecialLoad fuel env (TrackAvailable original media) s =
     Returns (s\<lparr>engine := (engine s)\<lparr>engine_calls :=
                    engine_calls (engine s) @ [EnginePlay media (stream_change_type s)]\<rparr>,
                current_item_ref := Some item,
                loading_async := QUrl_empty\<rparr>)"
  by (simp add: Let_def Engine_Play_def)

text \<open>The two ways through \<^verbatim>\<open>PlayAt\<close> and \<^verbatim>\<open>NextInternal\<close> for an item that loads.\<close>

lemma PlayAt_already_loading:
  assumes "0 \<le> index" and "index < rowCount (active s)"
    and "rows (active s) ! nat index = Some item"
    and "SpecialPlayBehaviour \<in> options item" and "Url item = loading_async s"
  shows "PlayAt fuel env index change reshuffle s =
     Returns (s\<lparr>active := (active s)\<lparr>current_index := index\<rparr>, current_item_ref := Some item\<rparr>)"
proof -
  have "current_item ((active s)\<lparr>current_index := index\<rparr>) = Some item"
    using assms(1-3) by (simp add: current_item_at_index)
  then show ?thesis
    using assms(4,5) by (simp add: Let_def set_current_index_def)
qed

lemma PlayAt_starts_async:
  assumes "0 \<le> index" and "index < rowCount (active s)"
    and "rows (active s) ! nat index = Some item"
    and "SpecialPlayBehaviour \<in> options item" and "Url item \<noteq> loading_async s"
    and "StartLoading env (load_calls s) item = WillLoadAsynchronously (Url item)"
  shows "PlayAt fuel env index change reshuffle s =
     Returns (s\<lparr>active := (active s)\<lparr>current_index := index\<rparr>, current_item_ref := Some item,
                stream_change_type := change,
                load_calls := load_calls s @ [StartLoading_call (Url item)],
                loading_async := Url item\<rparr>)"
proof -
  have "current_item ((active s)\<lparr>current_index := index\<rparr>) = Some item"
    using assms(1-3) by (simp add: current_item_at_index)
  then show ?thesis
    using assms(4-6) by (simp add: Let_def set_current_index_def)
qed

lemma NextInternal_already_loading:
  assumes "\<not> stop_after_current (active s)" and "current_item (active s) = Some item"
    and "ContainsMultipleTracks \<in> options item" and "Url item = loading_async s"
  shows "NextInternal fuel env change s =
     Returns (if change = Manual then s\<lparr>emitted := emitted s @ [TrackSkipped (current_item_ref s)]\<rparr>
              else s)"
  using assms by (simp add: NextInternal_def Let_def emit_def)

lemma NextInternal_starts_async:
  assumes "\<not> stop_after_current (active s)" and "current_item (active s) = Some item"
    and "ContainsMultipleTracks \<in> options item" and "Url item \<noteq> loading_async s"
    and "LoadNext env (load_calls s) item = WillLoadAsynchronously (Url item)"
  shows "NextInternal fuel env change s =
     Returns (s\<lparr>emitted := (if change = Manual then emitted s @ [TrackSkipped (current_item_ref s)]
                             else emitted s),
                stream_change_type := change,
                load_calls := load_calls s @ [LoadNext_call (Url item)],
                loading_async := Url item\<rparr>)"
  using assms by (simp add: NextInternal_def Let_def emit_def)

subsection \<open>Metadata\<close>

text \<open>
  C1.  The claim says that the bundle with the title \<^verbatim>\<open>"Artist Name - Track Title"\<close>
  and no artist is published with the artist \<^verbatim>\<open>"Artist Name"\<close> and the title
  \<^verbatim>\<open>"Track Title"\<close>, and the comment above the split says the same of the title field
  (\<^verbatim>\<open>"Artist - Title"\<close>).  The code does not do it.  With the cursor on a plain network
  stream (\<^verbatim>\<open>http://example.com/live\<close>), the metadata published under the item's locator
  has the title \<^verbatim>\<open>"Artist Name"\<close> and the artist \<^verbatim>\<open>"Track Title"\<close>: the text after
  the dash went to the artist and the text before it to the title.
\<close>

theorem metadata_split_failing_input:
  "title icy_bundle = ''Artist Name - Track Title'' \<and> artist icy_bundle = []
   \<and> indexOf (title icy_bundle) CHR ''-'' = 12
   \<and> current_item (active demo_on_stream) = Some item_stream
   \<and> Url item_stream = url_stream
   \<and> stream_metadata (active (EngineMetadataReceived icy_bundle demo_on_stream)) url_stream
       = Some \<lparr>song_title = ''Artist Name'', song_artist = ''Track Title'', song_album = []\<rparr>"
  by (simp add: demo_defs op_defs EngineMetadataReceived_def MergeFromSimpleMetaBundle_def
      SetStreamMetadata_def trimmed_def mid_def left_def isSpace_def)

text \<open>
  The same bundle with the cursor on the SomaFM stream goes through the swap of artist and
  title, and is published as the claim has it.
\<close>

lemma metadata_split_on_somafm:
  "current_item (active demo_on_soma) = Some item_soma
   \<and> contains (url_host (Url item_soma)) ''somafm.com''
   \<and> stream_metadata (active (EngineMetadataReceived icy_bundle demo_on_soma)) url_soma
       = Some \<lparr>song_title = ''Track Title'', song_artist = ''Artist Name'', song_album = []\<rparr>"
  by (simp add: demo_defs op_defs EngineMetadataReceived_def MergeFromSimpleMetaBundle_def
      SetStreamMetadata_def trimmed_def mid_def left_def isSpace_def)

text \<open>
  C10.  When the active playlist has no current item, \<^verbatim>\<open>EngineMetadataReceived\<close>
  returns at once: the player, and with it the metadata store of the playlist, is as it
  was, whatever the bundle.
\<close>

theorem EngineMetadataReceived_no_current_item:
  assumes "current_item (active s) = None"
  shows "EngineMetadataReceived bundle s = s"
  using assms by (simp add: EngineMetadataReceived_def)

theorem EngineMetadataReceived_no_current_item_witness:
  "current_item (active demo_player) = None
   \<and> EngineMetadataReceived icy_bundle demo_player = demo_player"
proof -
  have h: "current_item (active demo_player) = None"
    by (simp add: demo_player_def demo_playlist_def current_item_def)
  show ?thesis
    using EngineMetadataReceived_no_current_item [OF h] h by simp
qed

subsection \<open>The resolver and the token\<close>

text \<open>
  C3.  A \<open>TrackAvailable original media\<close> result is dropped, leaving the player as it
  was (no engine call, the current-item reference untouched), when the current index is
  -1 and when the item at the current index has a locator other than \<open>original\<close>.
  When the item at the current index has the locator \<open>original\<close>, the engine gets one
  \<^verbatim>\<open>Play\<close> call with \<open>media\<close> and the recorded change type, the item becomes the
  current-item reference and the token is cleared.
\<close>

theorem HandleSpecialLoad_TrackAvailable:
  "(current_index (active s) = -1 \<longrightarrow>
      HandleSpecialLoad fuel env (TrackAvailable original media) s = Returns s)
   \<and> (item_at (active s) (current_index (active s)) = Returns (Some item)
        \<and> Url item \<noteq> original \<longrightarrow>
      HandleSpecialLoad fuel env (TrackAvailable original media) s = Returns s)
   \<and> (current_index (active s) \<noteq> -1
        \<and> item_at (active s) (current_index (active s)) = Returns (Some item)
        \<and> Url item = original \<longrightarrow>
      HandleSpecialLoad fuel env (TrackAvailable original media) s =
        Returns (s\<lparr>engine := (engine s)\<lparr>engine_calls :=
                       engine_calls (engine s) @ [EnginePlay media (stream_change_type s)]\<rparr>,
                   current_item_ref := Some item,
                   loading_async := QUrl_empty\<rparr>))"
  using TrackAvailable_no_index [of s fuel env original media]
    TrackAvailable_other_locator [of s item original fuel env media]
    TrackAvailable_valid [of s item original fuel env media]
  by blast

theorem HandleSpecialLoad_TrackAvailable_witness:
  "current_index (active demo_stopped) = -1
   \<and> HandleSpecialLoad 0 demo_env (TrackAvailable url_radio url_media) demo_stopped
       = Returns demo_stopped
   \<and> item_at (active demo_moved) (current_index (active demo_moved)) = Returns (Some item_file)
   \<and> Url item_file \<noteq> url_radio
   \<and> HandleSpecialLoad 0 demo_env (TrackAvailable url_radio url_media) demo_moved
       = Returns demo_moved
   \<and> current_index (active demo_loading) \<noteq> -1
   \<and> item_at (active demo_loading) (current_index (active demo_loading))
       = Returns (Some item_radio)
   \<and> Url item_radio = url_radio
   \<and> HandleSpecialLoad 0 demo_env (TrackAvailable url_radio url_media) demo_loading
       = Returns (demo_loading\<lparr>engine := demo_engine\<lparr>engine_calls := [EnginePlay url_media Manual]\<rparr>,
                    loading_async := QUrl_empty\<rparr>)"
proof -
  have a: "current_index (active demo_stopped) = -1"
    by (simp add: demo_defs)
  have b1: "item_at (active demo_moved) (current_index (active demo_moved)) = Returns (Some item_file)"
    by (simp add: demo_moved_def demo_loading_def demo_player_def demo_playlist_def item_at_def rowCount_def)
  have b2: "Url item_file \<noteq> url_radio"
    by (simp add: item_file_def url_file_def url_radio_def)
  have c1: "current_index (active demo_loading) \<noteq> -1"
    by (simp add: demo_loading_def demo_player_def demo_playlist_def)
  have c2: "item_at (active demo_loading) (current_index (active demo_loading))
       = Returns (Some item_radio)"
    by (simp add: demo_loading_def demo_player_def demo_playlist_def item_at_def rowCount_def)
  have c3: "Url item_radio = url_radio"
    by (simp add: item_radio_def)
  have e: "demo_loading\<lparr>engine := (engine demo_loading)\<lparr>engine_calls :=
                 engine_calls (engine demo_loading) @ [EnginePlay url_media (stream_change_type demo_loading)]\<rparr>,
               current_item_ref := Some item_radio, loading_async := QUrl_empty\<rparr>
          = demo_loading\<lparr>engine := demo_engine\<lparr>engine_calls := [EnginePlay url_media Manual]\<rparr>,
                    loading_async := QUrl_empty\<rparr>"
    by (simp add: demo_loading_def demo_player_def demo_engine_def)
  show ?thesis
    using HandleSpecialLoad_TrackAvailable [where s = demo_stopped and fuel = "0" and env = demo_env
        and original = url_radio and media = url_media and item = item_radio]
      HandleSpecialLoad_TrackAvailable [where s = demo_moved and fuel = "0" and env = demo_env
        and original = url_radio and media = url_media and item = item_file]
      HandleSpecialLoad_TrackAvailable [where s = demo_loading and fuel = "0" and env = demo_env
        and original = url_radio and media = url_media and item = item_radio]
      a b1 b2 c1 c2 c3 e
    by simp
qed

text \<open>
  C2.  The claim says that the token is never left dangling.  The code leaves it.
  \<^verbatim>\<open>PlayAt(0, Manual, false)\<close> on the radio item starts an asynchronous load and sets
  the token to the item's locator.  \<^verbatim>\<open>Previous()\<close> finds no row before it and stops
  the player: no item is current any more, and the token is still set.  The
  \<open>TrackAvailable\<close> result that arrives afterwards is a terminal result; it is dropped
  as stale, and the token is still set after it, with no load in flight.  From then on
  \<^verbatim>\<open>PlayAt(0, Manual, false)\<close> on the radio item returns at the test for a load in
  flight: it starts no load and makes no engine call, so the item cannot be played.
\<close>

theorem async_token_left_dangling:
  "PlayAt 0 demo_env 0 Manual False demo_player = Returns demo_loading
   \<and> loading_async demo_loading = url_radio
   \<and> url_radio \<noteq> QUrl_empty
   \<and> Previous 0 demo_env demo_loading = Returns demo_stopped
   \<and> current_item (active demo_stopped) = None
   \<and> current_item_ref demo_stopped = None
   \<and> loading_async demo_stopped = url_radio
   \<and> HandleSpecialLoad 0 demo_env (TrackAvailable url_radio url_media) demo_stopped
        = Returns demo_stopped
   \<and> PlayAt 0 demo_env 0 Manual False demo_stopped = Returns demo_stuck
   \<and> PlayAt 0 demo_env 0 Manual False demo_stuck = Returns demo_stuck
   \<and> loading_async demo_stuck = url_radio
   \<and> load_calls demo_stuck = load_calls demo_loading
   \<and> engine_calls (engine demo_stuck) = [EngineStop]"
  by (simp add: demo_defs op_defs)

text \<open>
  C4, as it is stated, fails.  The only item of the playlist holds several tracks and has
  no special play behaviour.  \<^verbatim>\<open>NextInternal(Auto)\<close> starts an asynchronous load of its
  next track, so the token is the item's locator.  Two calls of
  \<^verbatim>\<open>PlayAt(0, Manual, false)\<close> follow at once: each of them makes the engine play the
  item's locator, the first one after clearing the token.
\<close>

theorem PlayAt_twice_while_loading_counterexample:
  "NextInternal 0 demo_env Auto demo_multi_start = Returns demo_multi_loading
   \<and> current_item (active demo_multi_loading) = Some item_multi
   \<and> loading_async demo_multi_loading = Url item_multi
   \<and> engine_calls (engine demo_multi_loading) = []
   \<and> PlayAt 0 demo_env 0 Manual False demo_multi_loading = Returns demo_multi_played
   \<and> PlayAt 0 demo_env 0 Manual False demo_multi_played = Returns demo_multi_played_twice
   \<and> engine_calls (engine demo_multi_played_twice)
        = [EnginePlay url_multi Manual, EnginePlay url_multi Manual]"
  by (simp add: demo_defs op_defs)

text \<open>
  C4, amended.  For an item whose locator equals the token, \<^verbatim>\<open>PlayAt\<close> on its row
  only sets the cursor and the current-item reference when the item has special play
  behaviour, and \<^verbatim>\<open>NextInternal\<close> only emits the \<^verbatim>\<open>TrackSkipped\<close> signal of a manual
  skip when no stop-after-current marker is pending and the current item holds several
  tracks: no load is started and the engine is not called.  So, when the first
  \<^verbatim>\<open>PlayAt\<close> on such an item (the first \<^verbatim>\<open>NextInternal\<close> on such a current item)
  starts an asynchronous load, the second call right after it starts no load and plays
  nothing, and the \<open>TrackAvailable\<close> result that resolves the load makes the engine
  play once.
\<close>

theorem no_second_load_while_loading:
  "(0 \<le> index \<and> index < rowCount (active s) \<and> rows (active s) ! nat index = Some item
      \<and> SpecialPlayBehaviour \<in> options item \<and> Url item = loading_async s
    \<longrightarrow> PlayAt fuel env index change reshuffle s
          = Returns (s\<lparr>active := (active s)\<lparr>current_index := index\<rparr>,
                       current_item_ref := Some item\<rparr>))
   \<and> (\<not> stop_after_current (active s) \<and> current_item (active s) = Some item
      \<and> ContainsMultipleTracks \<in> options item \<and> Url item = loading_async s
    \<longrightarrow> NextInternal fuel env change s
          = Returns (if change = Manual
                     then s\<lparr>emitted := emitted s @ [TrackSkipped (current_item_ref s)]\<rparr>
                     else s))
   \<and> (0 \<le> index \<and> index < rowCount (active s) \<and> rows (active s) ! nat index = Some item
      \<and> SpecialPlayBehaviour \<in> options item \<and> Url item \<noteq> loading_async s
      \<and> StartLoading env (load_calls s) item = WillLoadAsynchronously (Url item)
    \<longrightarrow> (\<exists>s1 s2.
           PlayAt fuel env index change reshuffle s = Returns s1
         \<and> loading_async s1 = Url item
         \<and> engine_calls (engine s1) = engine_calls (engine s)
         \<and> load_calls s1 = load_calls s @ [StartLoading_call (Url item)]
         \<and> PlayAt fuel' env index change' reshuffle' s1 = Returns s1
         \<and> HandleSpecialLoad fuel'' env (TrackAvailable (Url item) media) s1 = Returns s2
         \<and> engine_calls (engine s2) = engine_calls (engine s) @ [EnginePlay media change]
         \<and> load_calls s2 = load_calls s @ [StartLoading_call (Url item)]))
   \<and> (\<not> stop_after_current (active s) \<and> current_item (active s) = Some item
      \<and> ContainsMultipleTracks \<in> options item \<and> Url item \<noteq> loading_async s
      \<and> LoadNext env (load_calls s) item = WillLoadAsynchronously (Url item)
    \<longrightarrow> (\<exists>s1 s2 s3.
           NextInternal fuel env change s = Returns s1
         \<and> loading_async s1 = Url item
         \<and> engine_calls (engine s1) = engine_calls (engine s)
         \<and> load_calls s1 = load_calls s @ [LoadNext_call (Url item)]
         \<and> NextInternal fuel' env change' s1 = Returns s2
         \<and> engine_calls (engine s2) = engine_calls (engine s)
         \<and> load_calls s2 = load_calls s1
         \<and> loading_async s2 = Url item
         \<and> HandleSpecialLoad fuel'' env (TrackAvailable (Url item) media) s2 = Returns s3
         \<and> engine_calls (engine s3) = engine_calls (engine s) @ [EnginePlay media change]
         \<and> load_calls s3 = load_calls s @ [LoadNext_call (Url item)]))"
proof (intro conjI impI)
  assume a: "0 \<le> index \<and> index < rowCount (active s) \<and> rows (active s) ! nat index = Some item
      \<and> SpecialPlayBehaviour \<in> options item \<and> Url item = loading_async s"
  show "PlayAt fuel env index change reshuffle s
          = Returns (s\<lparr>active := (active s)\<lparr>current_index := index\<rparr>,
                       current_item_ref := Some item\<rparr>)"
    by (rule PlayAt_already_loading) (use a in simp_all)
next
  assume a: "\<not> stop_after_current (active s) \<and> current_item (active s) = Some item
      \<and> ContainsMultipleTracks \<in> options item \<and> Url item = loading_async s"
  show "NextInternal fuel env change s
          = Returns (if change = Manual
                     then s\<lparr>emitted := emitted s @ [TrackSkipped (current_item_ref s)]\<rparr>
                     else s)"
    by (rule NextInternal_already_loading [where item = item]) (use a in simp_all)
next
  assume a: "0 \<le> index \<and> index < rowCount (active s) \<and> rows (active s) ! nat index = Some item
      \<and> SpecialPlayBehaviour \<in> options item \<and> Url item \<noteq> loading_async s
      \<and> StartLoading env (load_calls s) item = WillLoadAsynchronously (Url item)"
  define s1 where "s1 = s\<lparr>active := (active s)\<lparr>current_index := index\<rparr>,
                current_item_ref := Some item, stream_change_type := change,
                load_calls := load_calls s @ [StartLoading_call (Url item)],
                loading_async := Url item\<rparr>"
  define s2 where "s2 = s1\<lparr>engine := (engine s1)\<lparr>engine_calls :=
                    engine_calls (engine s1) @ [EnginePlay media (stream_change_type s1)]\<rparr>,
                current_item_ref := Some item, loading_async := QUrl_empty\<rparr>"
  have first: "PlayAt fuel env index change reshuffle s = Returns s1"
    unfolding s1_def by (rule PlayAt_starts_async) (use a in simp_all)
  have row: "0 \<le> index" "index < rowCount (active s1)" "rows (active s1) ! nat index = Some item"
    using a by (simp_all add: s1_def rowCount_def)
  have "PlayAt fuel' env index change' reshuffle' s1 =
     Returns (s1\<lparr>active := (active s1)\<lparr>current_index := index\<rparr>, current_item_ref := Some item\<rparr>)"
    by (rule PlayAt_already_loading) (use row a in \<open>simp_all add: s1_def\<close>)
  then have second: "PlayAt fuel' env index change' reshuffle' s1 = Returns s1"
    by (simp add: s1_def)
  have idx: "current_index (active s1) \<noteq> -1" using a by (auto simp: s1_def)
  have at: "item_at (active s1) (current_index (active s1)) = Returns (Some item)"
    using a by (simp add: s1_def item_at_def rowCount_def)
  have resolve: "HandleSpecialLoad fuel'' env (TrackAvailable (Url item) media) s1 = Returns s2"
    unfolding s2_def by (rule TrackAvailable_valid) (use idx at in simp_all)
  have "loading_async s1 = Url item"
    and "engine_calls (engine s1) = engine_calls (engine s)"
    and "load_calls s1 = load_calls s @ [StartLoading_call (Url item)]"
    and "engine_calls (engine s2) = engine_calls (engine s) @ [EnginePlay media change]"
    and "load_calls s2 = load_calls s @ [StartLoading_call (Url item)]"
    by (simp_all add: s1_def s2_def)
  with first second resolve
  show "\<exists>s1 s2.
           PlayAt fuel env index change reshuffle s = Returns s1
         \<and> loading_async s1 = Url item
         \<and> engine_calls (engine s1) = engine_calls (engine s)
         \<and> load_calls s1 = load_calls s @ [StartLoading_call (Url item)]
         \<and> PlayAt fuel' env index change' reshuffle' s1 = Returns s1
         \<and> HandleSpecialLoad fuel'' env (TrackAvailable (Url item) media) s1 = Returns s2
         \<and> engine_calls (engine s2) = engine_calls (engine s) @ [EnginePlay media change]
         \<and> load_calls s2 = load_calls s @ [StartLoading_call (Url item)]"
    by blast
next
  assume a: "\<not> stop_after_current (active s) \<and> current_item (active s) = Some item
      \<and> ContainsMultipleTracks \<in> options item \<and> Url item \<noteq> loading_async s
      \<and> LoadNext env (load_calls s) item = WillLoadAsynchronously (Url item)"
  define s1 where "s1 = s\<lparr>emitted := (if change = Manual
                   then emitted s @ [TrackSkipped (current_item_ref s)] else emitted s),
                stream_change_type := change,
                load_calls := load_calls s @ [LoadNext_call (Url item)],
                loading_async := Url item\<rparr>"
  define s2 where "s2 = (if change' = Manual
                   then s1\<lparr>emitted := emitted s1 @ [TrackSkipped (current_item_ref s1)]\<rparr>
                   else s1)"
  define s3 where "s3 = s2\<lparr>engine := (engine s2)\<lparr>engine_calls :=
                    engine_calls (engine s2) @ [EnginePlay media (stream_change_type s2)]\<rparr>,
                current_item_ref := Some item, loading_async := QUrl_empty\<rparr>"
  have first: "NextInternal fuel env change s = Returns s1"
    unfolding s1_def by (rule NextInternal_starts_async) (use a in simp_all)
  have act1: "active s1 = active s" and act2: "active s2 = active s"
    by (simp_all add: s1_def s2_def)
  have second: "NextInternal fuel' env change' s1 = Returns s2"
    unfolding s2_def
    by (rule NextInternal_already_loading [where item = item]) (use a act1 in \<open>simp_all add: s1_def\<close>)
  have here: "current_index (active s2) \<noteq> -1
      \<and> item_at (active s2) (current_index (active s2)) = Returns (Some item)"
    using a act2 current_item_SomeD [of "active s" item] by simp
  have resolve: "HandleSpecialLoad fuel'' env (TrackAvailable (Url item) media) s2 = Returns s3"
    unfolding s3_def by (rule TrackAvailable_valid) (use here in simp_all)
  have "loading_async s1 = Url item"
    and "engine_calls (engine s1) = engine_calls (engine s)"
    and "load_calls s1 = load_calls s @ [LoadNext_call (Url item)]"
    and "engine_calls (engine s2) = engine_calls (engine s)"
    and "load_calls s2 = load_calls s1"
    and "loading_async s2 = Url item"
    and "engine_calls (engine s3) = engine_calls (engine s) @ [EnginePlay media change]"
    and "load_calls s3 = load_calls s @ [LoadNext_call (Url item)]"
    by (simp_all add: s1_def s2_def s3_def)
  with first second resolve
  show "\<exists>s1 s2 s3.
           NextInternal fuel env change s = Returns s1
         \<and> loading_async s1 = Url item
         \<and> engine_calls (engine s1) = engine_calls (engine s)
         \<and> load_calls s1 = load_calls s @ [LoadNext_call (Url item)]
         \<and> NextInternal fuel' env change' s1 = Returns s2
         \<and> engine_calls (engine s2) = engine_calls (engine s)
         \<and> load_calls s2 = load_calls s1
         \<and> loading_async s2 = Url item
         \<and> HandleSpecialLoad fuel'' env (TrackAvailable (Url item) media) s2 = Returns s3
         \<and> engine_calls (engine s3) = engine_calls (engine s) @ [EnginePlay media change]
         \<and> load_calls s3 = load_calls s @ [LoadNext_call (Url item)]"
    by blast
qed

theorem no_second_load_while_loading_witness:
  "(0::int) \<le> 0 \<and> 0 < rowCount (active demo_loading)
   \<and> rows (active demo_loading) ! nat 0 = Some item_radio
   \<and> SpecialPlayBehaviour \<in> options item_radio \<and> Url item_radio = loading_async demo_loading
   \<and> PlayAt 0 demo_env 0 Auto True demo_loading = Returns demo_loading
   \<and> \<not> stop_after_current (active demo_loading)
   \<and> current_item (active demo_loading) = Some item_radio
   \<and> ContainsMultipleTracks \<in> options item_radio
   \<and> NextInternal 0 demo_env Auto demo_loading = Returns demo_loading
   \<and> 0 < rowCount (active demo_player)
   \<and> rows (active demo_player) ! nat 0 = Some item_radio
   \<and> Url item_radio \<noteq> loading_async demo_player
   \<and> StartLoading demo_env (load_calls demo_player) item_radio
        = WillLoadAsynchronously (Url item_radio)
   \<and> (\<exists>s1 s2.
           PlayAt 0 demo_env 0 Manual False demo_player = Returns s1
         \<and> loading_async s1 = Url item_radio
         \<and> engine_calls (engine s1) = engine_calls (engine demo_player)
         \<and> load_calls s1 = load_calls demo_player @ [StartLoading_call (Url item_radio)]
         \<and> PlayAt 0 demo_env 0 Manual False s1 = Returns s1
         \<and> HandleSpecialLoad 0 demo_env (TrackAvailable (Url item_radio) url_media) s1 = Returns s2
         \<and> engine_calls (engine s2)
              = engine_calls (engine demo_player) @ [EnginePlay url_media Manual]
         \<and> load_calls s2 = load_calls demo_player @ [StartLoading_call (Url item_radio)])
   \<and> \<not> stop_after_current (active demo_multi_start)
   \<and> current_item (active demo_multi_start) = Some item_multi
   \<and> ContainsMultipleTracks \<in> options item_multi
   \<and> Url item_multi \<noteq> loading_async demo_multi_start
   \<and> LoadNext demo_env (load_calls demo_multi_start) item_multi
        = WillLoadAsynchronously (Url item_multi)
   \<and> (\<exists>s1 s2 s3.
           NextInternal 0 demo_env Auto demo_multi_start = Returns s1
         \<and> loading_async s1 = Url item_multi
         \<and> engine_calls (engine s1) = engine_calls (engine demo_multi_start)
         \<and> load_calls s1 = load_calls demo_multi_start @ [LoadNext_call (Url item_multi)]
         \<and> NextInternal 0 demo_env Manual s1 = Returns s2
         \<and> engine_calls (engine s2) = engine_calls (engine demo_multi_start)
         \<and> load_calls s2 = load_calls s1
         \<and> loading_async s2 = Url item_multi
         \<and> HandleSpecialLoad 0 demo_env (TrackAvailable (Url item_multi) url_media) s2 = Returns s3
         \<and> engine_calls (engine s3)
              = engine_calls (engine demo_multi_start) @ [EnginePlay url_media Auto]
         \<and> load_calls s3 = load_calls demo_multi_start @ [LoadNext_call (Url item_multi)])"
proof -
  have a: "(0::int) \<le> 0 \<and> 0 < rowCount (active demo_loading)
      \<and> rows (active demo_loading) ! nat 0 = Some item_radio
      \<and> SpecialPlayBehaviour \<in> options item_radio \<and> Url item_radio = loading_async demo_loading"
    by (simp add: demo_defs op_defs)
  have b: "\<not> stop_after_current (active demo_loading)
      \<and> current_item (active demo_loading) = Some item_radio
      \<and> ContainsMultipleTracks \<in> options item_radio
      \<and> Url item_radio = loading_async demo_loading"
    by (simp add: demo_defs op_defs)
  have c: "(0::int) \<le> 0 \<and> 0 < rowCount (active demo_player)
      \<and> rows (active demo_player) ! nat 0 = Some item_radio
      \<and> SpecialPlayBehaviour \<in> options item_radio
      \<and> Url item_radio \<noteq> loading_async demo_player
      \<and> StartLoading demo_env (load_calls demo_player) item_radio
           = WillLoadAsynchronously (Url item_radio)"
    by (simp add: demo_defs op_defs)
  have d: "\<not> stop_after_current (active demo_multi_start)
      \<and> current_item (active demo_multi_start) = Some item_multi
      \<and> ContainsMultipleTracks \<in> options item_multi
      \<and> Url item_multi \<noteq> loading_async demo_multi_start
      \<and> LoadNext demo_env (load_calls demo_multi_start) item_multi
           = WillLoadAsynchronously (Url item_multi)"
    by (simp add: demo_defs op_defs)
  have same: "demo_loading\<lparr>active := (active demo_loading)\<lparr>current_index := 0\<rparr>,
                 current_item_ref := Some item_radio\<rparr> = demo_loading"
    by (simp add: demo_defs)
  note t1 = no_second_load_while_loading [where index = "0" and s = demo_loading
      and item = item_radio and fuel = "0" and env = demo_env and change = Auto
      and reshuffle = True, THEN conjunct1, rule_format, OF a]
  note t2 = no_second_load_while_loading [where index = "0" and s = demo_loading
      and item = item_radio and fuel = "0" and env = demo_env and change = Auto,
      THEN conjunct2, THEN conjunct1, rule_format, OF b]
  note t3 = no_second_load_while_loading [where index = "0" and s = demo_player
      and item = item_radio and fuel = "0" and env = demo_env and change = Manual
      and reshuffle = False and fuel' = "0" and change' = Manual and reshuffle' = False
      and fuel'' = "0" and media = url_media,
      THEN conjunct2, THEN conjunct2, THEN conjunct1, rule_format, OF c]
  note t4 = no_second_load_while_loading [where s = demo_multi_start
      and item = item_multi and fuel = "0" and env = demo_env and change = Auto
      and fuel' = "0" and change' = Manual and fuel'' = "0" and media = url_media,
      THEN conjunct2, THEN conjunct2, THEN conjunct2, rule_format, OF d]
  from t1 same have r1: "PlayAt 0 demo_env 0 Auto True demo_loading = Returns demo_loading"
    by simp
  from t2 have r2: "NextInternal 0 demo_env Auto demo_loading = Returns demo_loading"
    by simp
  show ?thesis
    using a b c d r1 r2 t3 t4 by (intro conjI) blast+
qed

subsection \<open>The end of the playlist\<close>

text \<open>
  C5.  When the cursor has no next index (\<^verbatim>\<open>next_index()\<close> is -1), \<^verbatim>\<open>NextItem\<close>
  returns a player whose current index is -1, with \<^verbatim>\<open>PlaylistFinished\<close> as the one
  signal emitted, \<^verbatim>\<open>Stop\<close> as the one call made on the engine, and no current item; the
  rest of the player is as it was.  It needs no fuel for that.
\<close>

theorem NextItem_exhausted:
  assumes "next_index env (active s) = -1"
  shows "NextItem fuel env change s =
     Returns (s\<lparr>active := (active s)\<lparr>current_index := -1\<rparr>,
                emitted := emitted s @ [PlaylistFinished],
                engine := (engine s)\<lparr>engine_calls := engine_calls (engine s) @ [EngineStop]\<rparr>,
                current_item_ref := None\<rparr>)"
  using assms
  by (simp add: Let_def Stop_def emit_def set_current_index_def Engine_Stop_def)

theorem NextItem_exhausted_witness:
  "next_index demo_env (active demo_last) = -1
   \<and> NextItem 0 demo_env Auto demo_last =
       Returns (demo_player\<lparr>emitted := [PlaylistFinished],
                  engine := demo_engine\<lparr>engine_calls := [EngineStop]\<rparr>\<rparr>)"
proof -
  have h: "next_index demo_env (active demo_last) = -1"
    by (simp add: demo_last_def demo_player_def demo_env_def demo_playlist_def rowCount_def)
  have e: "demo_last\<lparr>active := (active demo_last)\<lparr>current_index := -1\<rparr>,
                emitted := emitted demo_last @ [PlaylistFinished],
                engine := (engine demo_last)\<lparr>engine_calls := engine_calls (engine demo_last) @ [EngineStop]\<rparr>,
                current_item_ref := None\<rparr>
    = demo_player\<lparr>emitted := [PlaylistFinished],
                  engine := demo_engine\<lparr>engine_calls := [EngineStop]\<rparr>\<rparr>"
    by (simp add: demo_last_def demo_player_def demo_playlist_def demo_engine_def)
  show ?thesis
    using NextItem_exhausted [OF h, of 0 Auto] h e by simp
qed

subsection \<open>Volume\<close>

text \<open>
  C6.  \<^verbatim>\<open>SetVolume(v)\<close> clamps \<open>v\<close> to the range from 0 to 100, writes the clamped
  value to the settings, hands it to the engine in one \<^verbatim>\<open>SetVolume\<close> call, and emits
  \<^verbatim>\<open>VolumeChanged\<close> exactly when the clamped value differs from the volume the engine
  had before the call.  \<^verbatim>\<open>SetVolume(-5)\<close> is \<^verbatim>\<open>SetVolume(0)\<close> and \<^verbatim>\<open>SetVolume(150)\<close>
  is \<^verbatim>\<open>SetVolume(100)\<close>.
\<close>

theorem SetVolume_clamps_persists_forwards:
  "settings_volume (SetVolume v s) = max 0 (min 100 v)
   \<and> volume (engine (SetVolume v s)) = max 0 (min 100 v)
   \<and> engine_calls (engine (SetVolume v s)) =
       engine_calls (engine s) @ [EngineSetVolume (max 0 (min 100 v))]
   \<and> emitted (SetVolume v s) =
       (if max 0 (min 100 v) = volume (engine s) then emitted s
        else emitted s @ [VolumeChanged (max 0 (min 100 v))])
   \<and> 0 \<le> max 0 (min 100 v) \<and> max 0 (min 100 v) \<le> 100
   \<and> SetVolume (-5) s = SetVolume 0 s
   \<and> SetVolume 150 s = SetVolume 100 s"
  by (simp add: SetVolume_def qBound_def Engine_SetVolume_def emit_def Let_def)

text \<open>
  C7.  From an engine volume \<open>v\<close> that is not 0 (a volume: above 0 and at most
  100), \<^verbatim>\<open>Mute()\<close> brings the engine volume to 0 and a second \<^verbatim>\<open>Mute()\<close> brings it back to
  \<open>v\<close>.  The same holds from the volume that \<^verbatim>\<open>SetVolume(w)\<close> leaves, for every
  \<open>w\<close> above 0; after \<^verbatim>\<open>SetVolume(70)\<close> the engine volume is 70, then 0, then 70
  again.
\<close>

theorem Mute_round_trip:
  "(0 < volume (engine s) \<and> volume (engine s) \<le> 100
    \<longrightarrow> volume (engine (Mute s)) = 0
      \<and> volume (engine (Mute (Mute s))) = volume (engine s))
   \<and> (0 < w
    \<longrightarrow> volume (engine (SetVolume w s)) \<noteq> 0
      \<and> volume (engine (Mute (SetVolume w s))) = 0
      \<and> volume (engine (Mute (Mute (SetVolume w s)))) = volume (engine (SetVolume w s)))
   \<and> volume (engine (SetVolume 70 s)) = 70
   \<and> volume (engine (Mute (SetVolume 70 s))) = 0
   \<and> volume (engine (Mute (Mute (SetVolume 70 s)))) = 70"
proof -
  have after: "0 < volume (engine (SetVolume x s)) \<and> volume (engine (SetVolume x s)) \<le> 100"
    if "0 < x" for x
    using that by (simp add: SetVolume_volume qBound_def)
  have seventy: "volume (engine (SetVolume 70 s)) = 70"
    by (simp add: SetVolume_volume qBound_def)
  have general: "0 < volume (engine s) \<and> volume (engine s) \<le> 100
    \<longrightarrow> volume (engine (Mute s)) = 0
      \<and> volume (engine (Mute (Mute s))) = volume (engine s)"
    using Mute_twice [of s] by blast
  have set: "0 < w
    \<longrightarrow> volume (engine (SetVolume w s)) \<noteq> 0
      \<and> volume (engine (Mute (SetVolume w s))) = 0
      \<and> volume (engine (Mute (Mute (SetVolume w s)))) = volume (engine (SetVolume w s))"
    using Mute_twice [of "SetVolume w s"] after [of w] by auto
  have "volume (engine (Mute (SetVolume 70 s))) = 0
      \<and> volume (engine (Mute (Mute (SetVolume 70 s)))) = 70"
    using Mute_twice [of "SetVolume 70 s"] after [of 70] seventy by simp
  with general set seventy show ?thesis by blast
qed

theorem Mute_round_trip_witness:
  "0 < volume (engine demo_player) \<and> volume (engine demo_player) \<le> 100
   \<and> volume (engine (Mute demo_player)) = 0
   \<and> volume (engine (Mute (Mute demo_player))) = 50
   \<and> (0::int) < 150
   \<and> volume (engine (SetVolume 150 demo_player)) = 100
   \<and> volume (engine (Mute (SetVolume 150 demo_player))) = 0
   \<and> volume (engine (Mute (Mute (SetVolume 150 demo_player)))) = 100
   \<and> volume (engine (Mute (Mute (SetVolume 70 demo_player)))) = 70"
proof -
  have v: "volume (engine demo_player) = 50"
    by (simp add: demo_player_def demo_engine_def)
  have w: "volume (engine (SetVolume 150 demo_player)) = 100"
    by (simp add: SetVolume_volume qBound_def)
  have h: "0 < volume (engine demo_player) \<and> volume (engine demo_player) \<le> 100"
    by (simp add: v)
  show ?thesis
    using Mute_round_trip [of demo_player 150] h v w by simp
qed

subsection \<open>Seeking\<close>

text \<open>
  C8, as it is stated, fails.  The track is four minutes long and \<^verbatim>\<open>Seek\<close> is called
  with 2147484 seconds.  The target, 2147484000 milliseconds, lies beyond the end of the
  track, so its clamped value is the track length; but the product does not fit an
  \<^verbatim>\<open>int\<close>, what is left of it is negative, and the engine is told to seek to 0.
\<close>

theorem Seek_overflow_counterexample:
  "length_ms (engine demo_player) = 240000
   \<and> max 0 (min (length_ms (engine demo_player)) (2147484 * 1000)) = 240000
   \<and> to_int (2147484 * 1000) = -2147483296
   \<and> engine_calls (engine demo_player) = []
   \<and> engine_calls (engine (Seek 2147484 demo_player)) = [EngineSeek 0]"
  by (simp add: demo_defs Seek_def Let_def Engine_Seek_def qBound_def to_int_def
      set_scrobbled_def)

text \<open>
  C8, amended.  For every \<open>seconds\<close> whose product with 1000 fits an \<^verbatim>\<open>int\<close>,
  \<^verbatim>\<open>Seek(seconds)\<close> hands the engine, in one \<^verbatim>\<open>Seek\<close> call, the product clamped to
  the range from 0 to the track length, and leaves the scrobbled flag of the active
  playlist set, whatever it was.  The track length is the \<^verbatim>\<open>int\<close> the code reads,
  \<^verbatim>\<open>int(engine_->length())\<close>; the value handed over is never negative, and is at most
  the track length when that is not negative.
\<close>

theorem Seek_clamps_and_marks_scrobbled:
  assumes "- (2 ^ 31) \<le> seconds * 1000" and "seconds * 1000 < 2 ^ 31"
  shows "engine_calls (engine (Seek seconds s)) =
           engine_calls (engine s) @
             [EngineSeek (max 0 (min (to_int (length_ms (engine s))) (seconds * 1000)))]
       \<and> 0 \<le> max 0 (min (to_int (length_ms (engine s))) (seconds * 1000))
       \<and> (0 \<le> to_int (length_ms (engine s)) \<longrightarrow>
            max 0 (min (to_int (length_ms (engine s))) (seconds * 1000))
              \<le> to_int (length_ms (engine s)))
       \<and> scrobbled (active (Seek seconds s))"
proof -
  have prod: "to_int (seconds * 1000) = seconds * 1000"
    using assms by (simp add: to_int_id)
  have calls: "engine_calls (engine (Seek seconds s)) =
           engine_calls (engine s) @
             [EngineSeek (max 0 (min (to_int (length_ms (engine s))) (seconds * 1000)))]"
    by (simp add: Seek_def Let_def Engine_Seek_def qBound_def prod)
  have flag: "scrobbled (active (Seek seconds s))"
    by (simp add: Seek_def Let_def set_scrobbled_def)
  show ?thesis using calls flag by simp
qed

theorem Seek_clamps_and_marks_scrobbled_witness:
  "- (2 ^ 31) \<le> (30::int) * 1000 \<and> (30::int) * 1000 < 2 ^ 31
   \<and> - (2 ^ 31) \<le> (900::int) * 1000 \<and> (900::int) * 1000 < 2 ^ 31
   \<and> - (2 ^ 31) \<le> (-4::int) * 1000 \<and> (-4::int) * 1000 < 2 ^ 31
   \<and> to_int (length_ms (engine demo_player)) = 240000
   \<and> \<not> scrobbled (active demo_player)
   \<and> engine_calls (engine (Seek 30 demo_player)) = [EngineSeek 30000]
   \<and> engine_calls (engine (Seek 900 demo_player)) = [EngineSeek 240000]
   \<and> engine_calls (engine (Seek (-4) demo_player)) = [EngineSeek 0]
   \<and> scrobbled (active (Seek 30 demo_player))"
proof -
  have l: "to_int (length_ms (engine demo_player)) = 240000"
    and c: "engine_calls (engine demo_player) = []"
    and f: "\<not> scrobbled (active demo_player)"
    by (simp_all add: demo_player_def demo_engine_def demo_playlist_def to_int_def)
  have a1: "- (2 ^ 31) \<le> (30::int) * 1000" and a2: "(30::int) * 1000 < 2 ^ 31"
    and b1: "- (2 ^ 31) \<le> (900::int) * 1000" and b2: "(900::int) * 1000 < 2 ^ 31"
    and c1: "- (2 ^ 31) \<le> (-4::int) * 1000" and c2: "(-4::int) * 1000 < 2 ^ 31"
    by simp_all
  show ?thesis
    using Seek_clamps_and_marks_scrobbled [OF a1 a2, of demo_player]
      Seek_clamps_and_marks_scrobbled [OF b1 b2, of demo_player]
      Seek_clamps_and_marks_scrobbled [OF c1 c2, of demo_player] l c f
    by simp
qed

subsection \<open>Item lookup\<close>

text \<open>
  C9.  \<^verbatim>\<open>GetItemAt(pos)\<close> returns for every \<open>pos\<close> and never indexes the rows out of
  range: the null handle when \<open>pos\<close> is negative or not smaller than the row count,
  the row at \<open>pos\<close> otherwise.
\<close>

theorem GetItemAt_total:
  "GetItemAt s pos =
     Returns (if pos < 0 \<or> int (length (rows (active s))) \<le> pos then None
              else rows (active s) ! nat pos)"
  by (simp add: GetItemAt_def item_at_def rowCount_def)

end
